theory Spec2Isabelle
  imports Complex_Main "HOL-Library.Word"
begin

unbundle bit_operations_syntax

section \<open>The declarations of SDRDevice.h\<close>

text \<open>
  \<^verbatim>\<open>include/limesuite/SDRDevice.h\<close> declares the abstract device class
  \<^verbatim>\<open>lime::SDRDevice\<close>: its constants, its plain structs with their constructors, the
  pure virtual streaming operations and the optional operations with a default body.
  The structs are modelled twice over: as the bytes of the object, which is what the
  constructors write with \<^verbatim>\<open>memset\<close>, and as records of the fields read back
  from those bytes.
\<close>

subsection \<open>Constants and enumerations\<close>

definition MAX_CHANNEL_COUNT :: "8 word" where
  "MAX_CHANNEL_COUNT = 16"

definition MAX_RFSOC_COUNT :: "8 word" where
  "MAX_RFSOC_COUNT = 16"

text \<open>
  \<^verbatim>\<open>enum DataFormat { I16, I12, F32 }\<close>: an unscoped enumeration without initialisers,
  so the enumerators have the values 0, 1 and 2. A field of this type is stored as its
  underlying integer; \<open>DataFormat_of\<close> reads it and has no answer for any other value.
\<close>

datatype DataFormat = I16 | I12 | F32

definition DataFormat_of :: "32 word \<Rightarrow> DataFormat option" where
  "DataFormat_of v =
     (if v = 0 then Some I16 else if v = 1 then Some I12 else if v = 2 then Some F32 else None)"

subsection \<open>Object memory\<close>

text \<open>
  An object is the list of its bytes. \<^verbatim>\<open>memset(p, v, n)\<close> sets the first \<open>n\<close>
  bytes at \<open>p\<close> to \<open>v\<close>; the constructors call it on \<^verbatim>\<open>this\<close> with the size of
  the object, whatever the storage held before.
\<close>

type_synonym byte = "8 word"
type_synonym memory = "byte list"

definition memset :: "memory \<Rightarrow> byte \<Rightarrow> nat \<Rightarrow> memory" where
  "memset obj v n = replicate n v @ drop n obj"

text \<open>
  A scalar field of \<open>n\<close> bytes at offset \<open>off\<close> is read least significant byte
  first (the byte order of the targets the library is built for; an all-zero field
  reads zero in either order).
\<close>

fun le_bytes :: "byte list \<Rightarrow> nat" where
  "le_bytes [] = 0"
| "le_bytes (b # bs) = unat b + 256 * le_bytes bs"

definition load :: "memory \<Rightarrow> nat \<Rightarrow> nat \<Rightarrow> nat" where
  "load m off n = le_bytes (take n (drop off m))"

definition load_u8 :: "memory \<Rightarrow> nat \<Rightarrow> 8 word" where
  "load_u8 m off = word_of_nat (load m off 1)"

definition load_u16 :: "memory \<Rightarrow> nat \<Rightarrow> 16 word" where
  "load_u16 m off = word_of_nat (load m off 2)"

definition load_u32 :: "memory \<Rightarrow> nat \<Rightarrow> 32 word" where
  "load_u32 m off = word_of_nat (load m off 4)"

definition load_u64 :: "memory \<Rightarrow> nat \<Rightarrow> 64 word" where
  "load_u64 m off = word_of_nat (load m off 8)"

definition load_bool :: "memory \<Rightarrow> nat \<Rightarrow> bool" where
  "load_bool m off = (load m off 1 \<noteq> 0)"

definition load_u8_array :: "memory \<Rightarrow> nat \<Rightarrow> nat \<Rightarrow> 8 word list" where
  "load_u8_array m off n = map (\<lambda>i. load_u8 m (off + i)) [0..<n]"

definition store_u8 :: "memory \<Rightarrow> nat \<Rightarrow> 8 word \<Rightarrow> memory" where
  "store_u8 m off v = m[off := v]"

text \<open>
  A \<^verbatim>\<open>float\<close> field is kept as its 32 bits (IEEE 754 binary32). \<open>binary32_value\<close>
  is the number those bits stand for: none for an infinity or a NaN.
\<close>

definition binary32_value :: "32 word \<Rightarrow> rat option" where
  "binary32_value w =
     (let sign = (if bit w 31 then - 1 else 1 :: rat);
          e = unat (take_bit 8 (drop_bit 23 w));
          f = unat (take_bit 23 w)
      in if e = 255 then None
         else if e = 0 then Some (sign * of_nat f / 2 ^ 149)
         else if 150 \<le> e then Some (sign * of_nat (2 ^ 23 + f) * 2 ^ (e - 150))
         else Some (sign * of_nat (2 ^ 23 + f) / 2 ^ (150 - e)))"

text \<open>
  Storing a number in a \<^verbatim>\<open>float\<close> rounds it to the nearest binary32, ties to the
  even significand, the rounding of IEEE 754 arithmetic by default. \<open>round_even\<close>
  rounds to the nearest integer in that way.
\<close>

definition round_even :: "rat \<Rightarrow> int" where
  "round_even x =
     (let f = \<lfloor>x\<rfloor>; r = x - of_int f
      in if r < 1 / 2 then f else if 1 / 2 < r then f + 1 else if even f then f else f + 1)"

text \<open>
  The biased exponent of the binary32 that holds a magnitude \<open>a\<close>: the largest
  \<open>e\<close> from 2 to \<open>n\<close> with \<open>2 ^ (e - 127) \<le> a\<close>, and 1 (the exponent of the
  least normal numbers, shared by the subnormal ones) if there is none.
\<close>

primrec binary32_exponent :: "rat \<Rightarrow> nat \<Rightarrow> nat" where
  "binary32_exponent a 0 = 1"
| "binary32_exponent a (Suc n) =
     (if 0 < n \<and> 2 ^ Suc n \<le> a * 2 ^ 127 then Suc n else binary32_exponent a n)"

text \<open>
  The bits of the \<^verbatim>\<open>float\<close> that holds a rational number: the nearest binary32,
  and infinity beyond the largest one. The significand is rounded at the exponent of the
  magnitude; a significand that rounds up to the next power of two carries into the
  exponent field.
\<close>

definition binary32_of :: "rat \<Rightarrow> 32 word" where
  "binary32_of q =
     (let a = \<bar>q\<bar>;
          e = binary32_exponent a 254;
          m = round_even (a * 2 ^ 150 / 2 ^ e);
          bits = min (255 * 2 ^ 23) (int (e - 1) * 2 ^ 23 + m)
      in (if q < 0 then 2 ^ 31 else 0) + word_of_int bits)"

text \<open>A pointer is its 64-bit address; the null pointer is address 0.\<close>

type_synonym pointer = "64 word"

definition nullptr :: pointer where
  "nullptr = 0"

subsection \<open>StreamMeta\<close>

text \<open>
  \<^verbatim>\<open>struct StreamMeta\<close>, lines 144 to 149: \<^verbatim>\<open>int64_t timestamp\<close> is a 64-bit
  word read with \<open>sint\<close>.
\<close>

record StreamMeta =
  timestamp :: "64 word"
  useTimestamp :: bool
  flush :: bool

subsection \<open>StreamStats\<close>

text \<open>
  \<^verbatim>\<open>struct StreamStats\<close>, lines 76 to 92. The signed fields
  \<^verbatim>\<open>bytesTransferred\<close> and \<^verbatim>\<open>packets\<close> are 64-bit words read with \<open>sint\<close>.
\<close>

record StreamStats =
  timestamp :: "64 word"
  bytesTransferred :: "64 word"
  packets :: "64 word"
  FIFO_filled :: "32 word"
  dataRate_Bps :: "32 word"
  txDataRate_Bps :: "32 word"
  overrun :: "32 word"
  underrun :: "32 word"
  loss :: "32 word"
  late :: "32 word"
  isTx :: bool

text \<open>
  The size of the object and the offsets of its fields, as the LP64 C++ ABI lays the
  struct out (8-byte fields first, then the 4-byte ones, the flag last, padded to a
  multiple of 8).
\<close>

definition sizeof_StreamStats :: nat where
  "sizeof_StreamStats = 56"

definition StreamStats_fields :: "memory \<Rightarrow> StreamStats" where
  "StreamStats_fields m =
     \<lparr> timestamp = load_u64 m 0,
       bytesTransferred = load_u64 m 8,
       packets = load_u64 m 16,
       FIFO_filled = load_u32 m 24,
       dataRate_Bps = load_u32 m 28,
       txDataRate_Bps = load_u32 m 32,
       overrun = load_u32 m 36,
       underrun = load_u32 m 40,
       loss = load_u32 m 44,
       late = load_u32 m 48,
       isTx = load_bool m 52 \<rparr>"

text \<open>
  \<^verbatim>\<open>StreamStats() { memset(this, 0, sizeof(StreamStats)); }\<close>: \<open>raw\<close> is the
  storage the object is constructed in.
\<close>

definition StreamStats_ctor :: "memory \<Rightarrow> memory" where
  "StreamStats_ctor raw = memset raw 0 sizeof_StreamStats"

definition StreamStats_default :: "memory \<Rightarrow> StreamStats" where
  "StreamStats_default raw = StreamStats_fields (StreamStats_ctor raw)"

subsection \<open>StreamConfig::Extras\<close>

text \<open>\<^verbatim>\<open>struct Extras\<close>, lines 97 to 107.\<close>

record Extras =
  usePoll :: bool
  rxSamplesInPacket :: "16 word"
  rxPacketsInBatch :: "32 word"
  txMaxPacketsInBatch :: "32 word"
  txSamplesInPacket :: "16 word"

definition sizeof_Extras :: nat where
  "sizeof_Extras = 16"

definition offsetof_usePoll :: nat where
  "offsetof_usePoll = 0"

definition Extras_fields :: "memory \<Rightarrow> Extras" where
  "Extras_fields m =
     \<lparr> usePoll = load_bool m offsetof_usePoll,
       rxSamplesInPacket = load_u16 m 2,
       rxPacketsInBatch = load_u32 m 4,
       txMaxPacketsInBatch = load_u32 m 8,
       txSamplesInPacket = load_u16 m 12 \<rparr>"

text \<open>
  \<^verbatim>\<open>Extras() { memset(this, 0, sizeof(Extras)); usePoll = true; }\<close>: the assignment
  stores the byte 1 in the flag after the whole object was zeroed.
\<close>

definition Extras_ctor :: "memory \<Rightarrow> memory" where
  "Extras_ctor raw = store_u8 (memset raw 0 sizeof_Extras) offsetof_usePoll 1"

definition Extras_default :: "memory \<Rightarrow> Extras" where
  "Extras_default raw = Extras_fields (Extras_ctor raw)"

subsection \<open>StreamConfig\<close>

text \<open>
  \<^verbatim>\<open>struct StreamConfig\<close>, lines 95 to 142. The two enumeration fields hold the
  underlying integer, the three pointer fields their address.
\<close>

record StreamConfig =
  rxCount :: "8 word"
  rxChannels :: "8 word list"
  txCount :: "8 word"
  txChannels :: "8 word list"
  format :: "32 word"
  linkFormat :: "32 word"
  bufferSize :: "32 word"
  hintSampleRate :: "32 word"
  alignPhase :: bool
  statusCallback :: pointer
  userData :: pointer
  extraConfig :: pointer

definition sizeof_StreamConfig :: nat where
  "sizeof_StreamConfig = 80"

definition StreamConfig_fields :: "memory \<Rightarrow> StreamConfig" where
  "StreamConfig_fields m =
     \<lparr> rxCount = load_u8 m 0,
       rxChannels = load_u8_array m 1 (unat MAX_CHANNEL_COUNT),
       txCount = load_u8 m 17,
       txChannels = load_u8_array m 18 (unat MAX_CHANNEL_COUNT),
       format = load_u32 m 36,
       linkFormat = load_u32 m 40,
       bufferSize = load_u32 m 44,
       hintSampleRate = load_u32 m 48,
       alignPhase = load_bool m 52,
       statusCallback = load_u64 m 56,
       userData = load_u64 m 64,
       extraConfig = load_u64 m 72 \<rparr>"

text \<open>\<^verbatim>\<open>StreamConfig() { memset(this, 0, sizeof(StreamConfig)); }\<close>\<close>

definition StreamConfig_ctor :: "memory \<Rightarrow> memory" where
  "StreamConfig_ctor raw = memset raw 0 sizeof_StreamConfig"

definition StreamConfig_default :: "memory \<Rightarrow> StreamConfig" where
  "StreamConfig_default raw = StreamConfig_fields (StreamConfig_ctor raw)"

subsection \<open>The optional operations and their default bodies\<close>

text \<open>
  The GPIO and custom-parameter operations are virtual with a body, lines 235 to 278:
  each is \<^verbatim>\<open>{ return -1; }\<close>. An operation takes the device object, the buffers its
  pointer arguments refer to and the length, and returns the \<^verbatim>\<open>int\<close> together with
  the object and the buffers as the call leaves them. \<open>'dev\<close> is the state of
  whatever class derives from \<^verbatim>\<open>SDRDevice\<close>.
\<close>

record 'dev gpio_result =
  returned :: "32 word"
  device :: 'dev
  buffer :: "8 word list"

record 'dev parameter_result =
  returned_p :: "32 word"
  device_p :: 'dev
  ids_p :: "8 word list"
  values_p :: "rat list"
  units_p :: string

definition GPIOWrite :: "'dev \<Rightarrow> 8 word list \<Rightarrow> nat \<Rightarrow> 'dev gpio_result" where
  "GPIOWrite this buf bufLength = \<lparr> returned = - 1, device = this, buffer = buf \<rparr>"

definition GPIORead :: "'dev \<Rightarrow> 8 word list \<Rightarrow> nat \<Rightarrow> 'dev gpio_result" where
  "GPIORead this buf bufLength = \<lparr> returned = - 1, device = this, buffer = buf \<rparr>"

definition GPIODirWrite :: "'dev \<Rightarrow> 8 word list \<Rightarrow> nat \<Rightarrow> 'dev gpio_result" where
  "GPIODirWrite this buf bufLength = \<lparr> returned = - 1, device = this, buffer = buf \<rparr>"

definition GPIODirRead :: "'dev \<Rightarrow> 8 word list \<Rightarrow> nat \<Rightarrow> 'dev gpio_result" where
  "GPIODirRead this buf bufLength = \<lparr> returned = - 1, device = this, buffer = buf \<rparr>"

definition CustomParameterWrite ::
  "'dev \<Rightarrow> 8 word list \<Rightarrow> rat list \<Rightarrow> nat \<Rightarrow> string \<Rightarrow> 'dev parameter_result" where
  "CustomParameterWrite this ids vals count units =
     \<lparr> returned_p = - 1, device_p = this, ids_p = ids, values_p = vals, units_p = units \<rparr>"

definition CustomParameterRead ::
  "'dev \<Rightarrow> 8 word list \<Rightarrow> rat list \<Rightarrow> nat \<Rightarrow> string \<Rightarrow> 'dev parameter_result" where
  "CustomParameterRead this ids vals count units =
     \<lparr> returned_p = - 1, device_p = this, ids_p = ids, values_p = vals, units_p = units \<rparr>"

section \<open>The streaming core\<close>

text \<open>
  The header declares \<^verbatim>\<open>StreamSetup\<close>, \<^verbatim>\<open>StreamStart\<close>, \<^verbatim>\<open>StreamStop\<close>,
  \<^verbatim>\<open>StreamRx\<close>, \<^verbatim>\<open>StreamTx\<close> and \<^verbatim>\<open>StreamStatus\<close> pure virtual, lines 217 to
  223: their bodies belong to the device classes, which are not part of the header.
  Every definition of this section is therefore modelled from the specification
  (sections 3 to 7), over the types the header declares. The concurrent producer and
  consumer of section 5 appear as events of their own, interleaved with the caller's
  operations, each of them atomic. The model covers the lifecycle, the allocation of
  the buffers, the bounded queues, the late rule and the counters. It leaves out format
  conversion, batching and \<^verbatim>\<open>flush\<close>, phase alignment, the status callback, the
  continuity check behind the loss counter, byte counts and throughput, and failures of
  the transport.
\<close>

subsection \<open>Outcomes, states, buffers\<close>

text \<open>
  Modelled from the spec: the error taxonomy of section 7, which the header (every
  operation returns \<^verbatim>\<open>int\<close> or \<^verbatim>\<open>void\<close>) does not declare. Lifecycle and
  configuration errors are fatal to the call; the per-transfer failures and the
  already-running report are soft. The spec names no status for an allocation that
  fails during \<open>Setup\<close>; it is \<open>AllocationFailed\<close> here.
\<close>

datatype error = InvalidConfig | AlreadyConfigured | NotConfigured | NotRunning | AllocationFailed

text \<open>
  Modelled from the spec: the soft results, which do not stop the stream: the report of
  \<open>Start\<close> on a running module (section 4.1), the \<open>Late\<close> event (section 4.3),
  and the answers of a queue that is full, empty or not yet at the requested timestamp
  (sections 4.2 and 5).
\<close>

datatype warning = AlreadyRunning | Late | QueueFull | NothingAvailable | NotYetAvailable

text \<open>
  Modelled from the spec: what an operation returns, in place of the header's
  \<^verbatim>\<open>int\<close>: its result, a soft result, or a fatal error.
\<close>

datatype 'a outcome = Done 'a | Soft warning | Fatal error

text \<open>Modelled from the spec: the four states of the Stream Controller, section 4.1.\<close>

datatype lifecycle = Idle | Configured | Running | Stopped

text \<open>Modelled from the spec: the two directions of a channel (section 3).\<close>

datatype direction = RX | TX

text \<open>
  Modelled from the spec: a timestamp-tagged block of samples, the unit a Per-Channel
  Buffer queues (section 4.2). \<open>blk_timed\<close> says whether the timestamp is
  authoritative, as \<^verbatim>\<open>useTimestamp\<close> does. Samples are carried as given: format
  conversion is not part of this model.
\<close>

record block =
  blk_time :: int
  blk_timed :: bool
  blk_samples :: "int list"

text \<open>
  Modelled from the spec: the ChannelStats of section 3 as the controller keeps count:
  how many packets, overruns, underruns and late submissions there have been, and the
  FIFO fill as the exact fraction. A caller never reads this record: it reads the
  header's \<^verbatim>\<open>StreamStats\<close>, which \<open>StreamStats_of\<close> below fills from it, with
  the counters in their \<^verbatim>\<open>uint32_t\<close> and \<^verbatim>\<open>int64_t\<close> fields and the fill in
  its \<^verbatim>\<open>float\<close>. Byte counts, throughput and the sample-loss counter are not
  kept: they depend on wire sizes, on wall-clock time and on a continuity check the
  spec does not spell out.
\<close>

record ChannelStats =
  stat_timestamp :: int
  stat_packets :: nat
  stat_fill :: rat
  stat_overrun :: nat
  stat_underrun :: nat
  stat_late :: nat
  stat_is_tx :: bool

text \<open>
  Modelled from the spec: the statistics of a channel as \<open>Setup\<close> creates them, all
  zero, with the direction flag of the channel.
\<close>

definition fresh_stats :: "direction \<Rightarrow> ChannelStats" where
  "fresh_stats dir =
     \<lparr> stat_timestamp = 0, stat_packets = 0, stat_fill = 0, stat_overrun = 0,
       stat_underrun = 0, stat_late = 0, stat_is_tx = (dir = TX) \<rparr>"

text \<open>
  Modelled from the spec: section 4.4, "recomputes \<^verbatim>\<open>FIFO_filled\<close> as queue occupancy
  over capacity". A queue without any room is full.
\<close>

definition fill_fraction :: "nat \<Rightarrow> nat \<Rightarrow> rat" where
  "fill_fraction occupancy cap = (if cap = 0 then 1 else of_nat occupancy / of_nat cap)"


text \<open>
  Modelled from the spec: what \<^verbatim>\<open>StreamStatus\<close> writes into the caller's
  \<^verbatim>\<open>StreamStats\<close> (header lines 76 to 92). A \<^verbatim>\<open>uint32_t\<close> counter that is
  incremented once per event holds the count modulo \<open>2 ^ 32\<close>, which is what
  \<open>word_of_nat\<close> yields, and likewise for the 64-bit fields; \<^verbatim>\<open>FIFO_filled\<close> is
  the \<^verbatim>\<open>float\<close> of the fraction. The fields the controller keeps no count for
  (bytes, the two rates, loss) are written as 0.
\<close>

definition StreamStats_of :: "ChannelStats \<Rightarrow> StreamStats" where
  "StreamStats_of st =
     \<lparr> timestamp = word_of_int (stat_timestamp st), bytesTransferred = 0,
       packets = word_of_nat (stat_packets st), FIFO_filled = binary32_of (stat_fill st),
       dataRate_Bps = 0, txDataRate_Bps = 0, overrun = word_of_nat (stat_overrun st),
       underrun = word_of_nat (stat_underrun st), loss = 0,
       late = word_of_nat (stat_late st), isTx = stat_is_tx st \<rparr>"

text \<open>
  Modelled from the spec: a Per-Channel Buffer, a bounded queue of blocks (oldest
  first) with the statistics of its channel. Sizes are counted in blocks.
\<close>

record channel_buffer =
  capacity :: nat
  queue :: "block list"
  stats :: ChannelStats

text \<open>Modelled from the spec: a buffer as \<open>Setup\<close> allocates it, empty.\<close>

definition new_buffer :: "direction \<Rightarrow> nat \<Rightarrow> channel_buffer" where
  "new_buffer dir sz = \<lparr> capacity = sz, queue = [], stats = fresh_stats dir \<rparr>"

text \<open>
  Modelled from the spec: a buffer belongs to a channel and a direction, "one per active
  RX channel and one per active TX channel" (section 2); the channel is the header's
  \<^verbatim>\<open>uint8_t channel\<close>.
\<close>

type_synonym channel_key = "direction \<times> 8 word"

text \<open>
  Modelled from the spec: the Stream Controller of one RF module. It owns the buffers,
  one per declared channel and direction; \<open>free_memory\<close> is what is left to allocate
  from, \<open>internal_default\<close> the buffer size used when the hint is 0, \<open>tolerance\<close>
  the window of the Timestamp Scheduler and \<open>hw_time\<close> its current time in ticks
  (section 4.3). \<open>transmitted\<close> is the stream handed to the transport so far.
\<close>

record controller =
  phase :: lifecycle
  descriptor :: "StreamConfig option"
  buffers :: "channel_key \<Rightarrow> channel_buffer option"
  free_memory :: nat
  internal_default :: nat
  tolerance :: int
  hw_time :: int
  transmitted :: "(8 word \<times> block) list"

text \<open>
  Modelled from the spec: a controller before anything was set up, \<open>Idle\<close> and
  without resources, for a given memory, default buffer size and tolerance.
\<close>

definition initial :: "nat \<Rightarrow> nat \<Rightarrow> int \<Rightarrow> controller" where
  "initial mem dflt tol =
     \<lparr> phase = Idle, descriptor = None, buffers = (\<lambda>k. None), free_memory = mem,
       internal_default = dflt, tolerance = tol, hw_time = 0, transmitted = [] \<rparr>"

subsection \<open>Setup\<close>

text \<open>
  Modelled from the spec: the declared channels of a direction, the "ordered set of
  channel indices" of section 3: the first \<^verbatim>\<open>rxCount\<close> (\<^verbatim>\<open>txCount\<close>) entries of
  the header's array.
\<close>

definition declared :: "8 word \<Rightarrow> 8 word list \<Rightarrow> 8 word list" where
  "declared n chans = take (unat n) chans"

text \<open>
  Modelled from the spec: the negation of the descriptor invariant of section 3, as
  section 4.1 lists it: a direction is malformed when it declares more than
  \<^verbatim>\<open>MAX_CHANNEL_COUNT\<close> channels (the indices "exceed the maximum"), when a
  declared index is not below \<^verbatim>\<open>MAX_CHANNEL_COUNT\<close> ("out of range"), or when an
  index is declared twice ("duplicated").
\<close>

definition malformed_channels :: "8 word \<Rightarrow> 8 word list \<Rightarrow> bool" where
  "malformed_channels n chans \<longleftrightarrow>
     MAX_CHANNEL_COUNT < n
     \<or> list_ex (\<lambda>ch. MAX_CHANNEL_COUNT \<le> ch) (declared n chans)
     \<or> \<not> distinct (declared n chans)"

text \<open>
  Modelled from the spec: a descriptor is malformed when one of its directions is, or
  when the host or the link format field holds no enumerator of \<^verbatim>\<open>DataFormat\<close>
  ("formats are unrecognized", section 4.1).
\<close>

definition malformed :: "StreamConfig \<Rightarrow> bool" where
  "malformed d \<longleftrightarrow>
     malformed_channels (rxCount d) (rxChannels d)
     \<or> malformed_channels (txCount d) (txChannels d)
     \<or> DataFormat_of (format d) = None
     \<or> DataFormat_of (linkFormat d) = None"

text \<open>
  Modelled from the spec: the channels a descriptor declares, RX first, in the order
  \<open>Setup\<close> allocates their buffers.
\<close>

definition channel_keys :: "StreamConfig \<Rightarrow> channel_key list" where
  "channel_keys d =
     map (Pair RX) (declared (rxCount d) (rxChannels d))
     @ map (Pair TX) (declared (txCount d) (txChannels d))"

text \<open>
  Modelled from the spec: "allocates one buffer per declared channel sized from the
  hint or an internal default" (section 4.1; the header's comment on
  \<^verbatim>\<open>bufferSize\<close>: 0 lets the implementation decide).
\<close>

definition buffer_size :: "controller \<Rightarrow> StreamConfig \<Rightarrow> nat" where
  "buffer_size c d = (if bufferSize d = 0 then internal_default c else unat (bufferSize d))"

text \<open>
  Modelled from the spec: the allocation loop of \<open>Setup\<close>. It allocates the channels
  in order and stops at the first one the remaining memory cannot hold, returning the
  controller with the buffers allocated so far.
\<close>

fun allocate :: "nat \<Rightarrow> channel_key list \<Rightarrow> controller \<Rightarrow> bool \<times> controller" where
  "allocate sz [] c = (True, c)"
| "allocate sz (k # ks) c =
     (if sz \<le> free_memory c
      then allocate sz ks
             (c\<lparr> free_memory := free_memory c - sz,
                 buffers := (buffers c)(k \<mapsto> new_buffer (fst k) sz) \<rparr>)
      else (False, c))"

text \<open>
  Modelled from the spec: releasing the buffer of a channel returns its memory; a
  channel without a buffer is left alone.
\<close>

definition release :: "channel_key \<Rightarrow> controller \<Rightarrow> controller" where
  "release k c =
     (case buffers c k of
        None \<Rightarrow> c
      | Some b \<Rightarrow> c\<lparr> free_memory := free_memory c + capacity b,
                       buffers := (buffers c)(k := None) \<rparr>)"

text \<open>
  Modelled from the spec: the rollback of \<open>Setup\<close> (section 7) and the teardown of
  \<open>Stop\<close>: the listed channels are released, the last one first.
\<close>

definition release_all :: "channel_key list \<Rightarrow> controller \<Rightarrow> controller" where
  "release_all ks c = foldr release ks c"

text \<open>
  Modelled from the spec: \<open>Setup\<close>, sections 4.1, 6 and 7. The checks come in the
  order of section 6: a malformed descriptor is rejected before anything is allocated;
  then a controller that is neither \<open>Idle\<close> nor \<open>Stopped\<close> answers
  \<open>AlreadyConfigured\<close>; an allocation that fails part-way is rolled back by
  releasing what was allocated. On success the controller is \<open>Configured\<close> and the
  descriptor frozen.
\<close>

definition Setup :: "StreamConfig \<Rightarrow> controller \<Rightarrow> unit outcome \<times> controller" where
  "Setup d c =
     (if malformed d then (Fatal InvalidConfig, c)
      else if phase c \<noteq> Idle \<and> phase c \<noteq> Stopped then (Fatal AlreadyConfigured, c)
      else (case allocate (buffer_size c d) (channel_keys d) c of
              (True, c') \<Rightarrow> (Done (), c'\<lparr> phase := Configured, descriptor := Some d \<rparr>)
            | (False, c') \<Rightarrow> (Fatal AllocationFailed, release_all (channel_keys d) c')))"

subsection \<open>Start and Stop\<close>

text \<open>
  Modelled from the spec: \<open>Start\<close>, section 4.1. Valid only from \<open>Configured\<close>;
  on a module that is already running it is a no-op reported as a soft warning; in
  any other state it is the lifecycle error of section 7, without side effects.
\<close>

definition Start :: "controller \<Rightarrow> unit outcome \<times> controller" where
  "Start c =
     (case phase c of
        Configured \<Rightarrow> (Done (), c\<lparr> phase := Running \<rparr>)
      | Running \<Rightarrow> (Soft AlreadyRunning, c)
      | Idle \<Rightarrow> (Fatal NotConfigured, c)
      | Stopped \<Rightarrow> (Fatal NotConfigured, c))"

text \<open>
  Modelled from the spec: \<open>Stop\<close>, section 4.1. Valid from \<open>Running\<close> or
  \<open>Configured\<close>: it tears the stream down, releasing the buffers of the declared
  channels with their statistics (section 3: created at setup, destroyed at teardown),
  and leaves the controller \<open>Stopped\<close>. The events of this model are atomic, so no
  transfer is in flight when it runs. A stopped controller stays as it is; an idle one
  answers with the lifecycle error.
\<close>

definition Stop :: "controller \<Rightarrow> unit outcome \<times> controller" where
  "Stop c =
     (case phase c of
        Idle \<Rightarrow> (Fatal NotConfigured, c)
      | Stopped \<Rightarrow> (Done (), c)
      | Configured \<Rightarrow>
          (Done (), (case descriptor c of None \<Rightarrow> c | Some d \<Rightarrow> release_all (channel_keys d) c)
                      \<lparr> phase := Stopped \<rparr>)
      | Running \<Rightarrow>
          (Done (), (case descriptor c of None \<Rightarrow> c | Some d \<Rightarrow> release_all (channel_keys d) c)
                      \<lparr> phase := Stopped \<rparr>))"

subsection \<open>Receive and Transmit\<close>

text \<open>
  Modelled from the spec: \<open>Receive\<close>, section 4.2. It needs a running stream and a
  buffer for the channel. From the oldest block it copies up to \<open>count\<close> samples,
  fewer if the block holds fewer, and stamps the meta with the timestamp of the first of
  them; what is left of the block stays at the head with its timestamp advanced. With
  \<^verbatim>\<open>useTimestamp\<close> set, a head that has not reached the requested timestamp is not
  yet available. A transfer updates the statistics (section 4.4).
\<close>

definition Receive ::
  "8 word \<Rightarrow> nat \<Rightarrow> StreamMeta \<Rightarrow> controller \<Rightarrow> (int list \<times> StreamMeta) outcome \<times> controller" where
  "Receive ch count meta c =
     (if phase c \<noteq> Running then (Fatal NotRunning, c)
      else case buffers c (RX, ch) of
        None \<Rightarrow> (Fatal NotConfigured, c)
      | Some b \<Rightarrow>
          (case queue b of
             [] \<Rightarrow> (Soft NothingAvailable, c)
           | blk # rest \<Rightarrow>
               if useTimestamp meta \<and> blk_time blk < sint (StreamMeta.timestamp meta)
               then (Soft NotYetAvailable, c)
               else
                 let n = min count (length (blk_samples blk));
                     q = (if n < length (blk_samples blk)
                          then blk\<lparr> blk_time := blk_time blk + int n,
                                    blk_samples := drop n (blk_samples blk) \<rparr> # rest
                          else rest);
                     st = (stats b)\<lparr> stat_packets := stat_packets (stats b) + 1,
                                     stat_fill := fill_fraction (length q) (capacity b) \<rparr>
                 in (Done (take n (blk_samples blk),
                           meta\<lparr> StreamMeta.timestamp := word_of_int (blk_time blk) \<rparr>),
                     c\<lparr> buffers := (buffers c)((RX, ch) \<mapsto> b\<lparr> queue := q, stats := st \<rparr>) \<rparr>)))"

text \<open>
  Modelled from the spec: the rejection rule of the Timestamp Scheduler, section 4.3:
  a submission is late when its timestamp is authoritative and lies in the past beyond
  the tolerance window.
\<close>

definition is_late :: "controller \<Rightarrow> StreamMeta \<Rightarrow> bool" where
  "is_late c meta \<longleftrightarrow>
     useTimestamp meta \<and> sint (StreamMeta.timestamp meta) + tolerance c < hw_time c"

text \<open>
  Modelled from the spec: \<open>Transmit\<close>, sections 4.2 to 4.4. It needs a running
  stream and a buffer for the channel. A late submission is counted in \<open>late\<close> and
  dropped, a soft failure. A full queue takes nothing. Otherwise the block is queued
  with its timestamp and the statistics are updated.
\<close>

definition Transmit ::
  "8 word \<Rightarrow> int list \<Rightarrow> StreamMeta \<Rightarrow> controller \<Rightarrow> nat outcome \<times> controller" where
  "Transmit ch samples meta c =
     (if phase c \<noteq> Running then (Fatal NotRunning, c)
      else case buffers c (TX, ch) of
        None \<Rightarrow> (Fatal NotConfigured, c)
      | Some b \<Rightarrow>
          if is_late c meta
          then (Soft Late,
                c\<lparr> buffers := (buffers c)((TX, ch) \<mapsto>
                     b\<lparr> stats := (stats b)\<lparr> stat_late := stat_late (stats b) + 1 \<rparr> \<rparr>) \<rparr>)
          else if capacity b \<le> length (queue b) then (Soft QueueFull, c)
          else
            let q = queue b @ [\<lparr> blk_time = sint (StreamMeta.timestamp meta),
                                 blk_timed = useTimestamp meta, blk_samples = samples \<rparr>];
                st = (stats b)\<lparr> stat_packets := stat_packets (stats b) + 1,
                                stat_fill := fill_fraction (length q) (capacity b) \<rparr>
            in (Done (length samples),
                c\<lparr> buffers := (buffers c)((TX, ch) \<mapsto> b\<lparr> queue := q, stats := st \<rparr>) \<rparr>))"

text \<open>
  Modelled from the spec: the snapshot of \<^verbatim>\<open>StreamStatus\<close>, sections 3 and 6. The
  request stamps the statistics of the channel with the hardware time and writes them
  to the caller's \<^verbatim>\<open>StreamStats\<close>; a channel without a buffer has none. The
  statistics are kept per direction, so the request names the direction with the
  channel.
\<close>

definition StreamStatus ::
  "direction \<Rightarrow> 8 word \<Rightarrow> controller \<Rightarrow> StreamStats option \<times> controller" where
  "StreamStatus dir ch c =
     (case buffers c (dir, ch) of
        None \<Rightarrow> (None, c)
      | Some b \<Rightarrow>
          let st = (stats b)\<lparr> stat_timestamp := hw_time c \<rparr>
          in (Some (StreamStats_of st),
              c\<lparr> buffers := (buffers c)((dir, ch) \<mapsto> b\<lparr> stats := st \<rparr>) \<rparr>))"

text \<open>
  Modelled from the spec: the counts of a channel as they stand at a moment, none for a
  channel without a buffer; \<open>StreamStatus\<close> stamps the time in and writes them
  out.
\<close>

definition snapshot :: "controller \<Rightarrow> channel_key \<Rightarrow> ChannelStats option" where
  "snapshot c k = map_option stats (buffers c k)"

subsection \<open>The hardware side\<close>

text \<open>
  Modelled from the spec: the producer of an RX channel, sections 4.4 and 5. While the
  stream runs, a packet from the transport is queued as a block. Written into a full
  queue, it is an overrun: the counter goes up and the oldest block is dropped.
\<close>

definition rx_packet :: "8 word \<Rightarrow> int \<Rightarrow> int list \<Rightarrow> controller \<Rightarrow> controller" where
  "rx_packet ch ts samples c =
     (if phase c \<noteq> Running then c
      else case buffers c (RX, ch) of
        None \<Rightarrow> c
      | Some b \<Rightarrow>
          let blk = \<lparr> blk_time = ts, blk_timed = True, blk_samples = samples \<rparr>;
              full = (capacity b \<le> length (queue b));
              q = (if full then tl (queue b @ [blk]) else queue b @ [blk]);
              st = (stats b)\<lparr> stat_packets := stat_packets (stats b) + 1,
                              stat_fill := fill_fraction (length q) (capacity b),
                              stat_overrun := (if full then stat_overrun (stats b) + 1
                                               else stat_overrun (stats b)) \<rparr>
          in c\<lparr> buffers := (buffers c)((RX, ch) \<mapsto> b\<lparr> queue := q, stats := st \<rparr>) \<rparr>)"

text \<open>
  Modelled from the spec: the consumer of a TX channel, sections 4.2 to 4.4. While the
  stream runs, the hardware asks the queue for its oldest block. An empty queue is an
  underrun. A block whose authoritative timestamp the hardware time has not reached is
  held. Otherwise the block leaves the queue for the transmitted stream.
\<close>

definition tx_send :: "8 word \<Rightarrow> controller \<Rightarrow> controller" where
  "tx_send ch c =
     (if phase c \<noteq> Running then c
      else case buffers c (TX, ch) of
        None \<Rightarrow> c
      | Some b \<Rightarrow>
          (case queue b of
             [] \<Rightarrow>
               c\<lparr> buffers := (buffers c)((TX, ch) \<mapsto>
                    b\<lparr> stats := (stats b)\<lparr> stat_underrun := stat_underrun (stats b) + 1 \<rparr> \<rparr>) \<rparr>
           | blk # rest \<Rightarrow>
               if blk_timed blk \<and> hw_time c < blk_time blk then c
               else
                 c\<lparr> buffers := (buffers c)((TX, ch) \<mapsto>
                      b\<lparr> queue := rest,
                         stats := (stats b)\<lparr> stat_packets := stat_packets (stats b) + 1,
                                              stat_fill := fill_fraction (length rest) (capacity b) \<rparr> \<rparr>),
                    transmitted := transmitted c @ [(ch, blk)] \<rparr>))"

text \<open>Modelled from the spec: hardware time only moves forward (section 4.3).\<close>

definition tick :: "nat \<Rightarrow> controller \<Rightarrow> controller" where
  "tick n c = c\<lparr> hw_time := hw_time c + int n \<rparr>"

subsection \<open>Runs\<close>

text \<open>
  Modelled from the spec: what can happen to a controller, one event at a time: the
  caller's operations of section 6 and the hardware side of section 5.
\<close>

datatype event =
    CallSetup StreamConfig
  | CallStart
  | CallStop
  | CallReceive "8 word" nat StreamMeta
  | CallTransmit "8 word" "int list" StreamMeta
  | CallStatus direction "8 word"
  | HwPacket "8 word" int "int list"
  | HwSend "8 word"
  | HwTick nat

text \<open>Modelled from the spec: the controller after one event.\<close>

fun step :: "event \<Rightarrow> controller \<Rightarrow> controller" where
  "step (CallSetup d) c = snd (Setup d c)"
| "step CallStart c = snd (Start c)"
| "step CallStop c = snd (Stop c)"
| "step (CallReceive ch count meta) c = snd (Receive ch count meta c)"
| "step (CallTransmit ch samples meta) c = snd (Transmit ch samples meta c)"
| "step (CallStatus dir ch) c = snd (StreamStatus dir ch c)"
| "step (HwPacket ch ts samples) c = rx_packet ch ts samples c"
| "step (HwSend ch) c = tx_send ch c"
| "step (HwTick n) c = tick n c"

text \<open>Modelled from the spec: the controller after a sequence of events.\<close>

fun run :: "event list \<Rightarrow> controller \<Rightarrow> controller" where
  "run [] c = c"
| "run (e # es) c = run es (step e c)"

text \<open>
  Modelled from the spec: the states a controller can be in, whatever its memory,
  default size and tolerance: those some sequence of events leads to from the start.
\<close>

inductive reachable :: "controller \<Rightarrow> bool" where
  reachable_initial: "reachable (initial mem dflt tol)"
| reachable_step: "reachable c \<Longrightarrow> reachable (step e c)"

subsection \<open>The device and its modules\<close>

text \<open>
  Modelled from the spec: section 6, the operations per RF module. A device is its
  modules' controllers by module index (\<^verbatim>\<open>uint8_t moduleIndex\<close>; the spec uses the
  indices below \<^verbatim>\<open>MAX_RFSOC_COUNT\<close> and says nothing of the others, which have a
  controller of their own here).
\<close>

type_synonym modules = "8 word \<Rightarrow> controller"

text \<open>
  Modelled from the spec: \<^verbatim>\<open>StreamSetup\<close>, \<^verbatim>\<open>StreamStart\<close> and
  \<^verbatim>\<open>StreamStop\<close> of section 6: the operation of section 4.1 on the controller of
  the module, the other modules left alone.
\<close>

definition StreamSetup :: "modules \<Rightarrow> StreamConfig \<Rightarrow> 8 word \<Rightarrow> unit outcome \<times> modules" where
  "StreamSetup dev config moduleIndex =
     (fst (Setup config (dev moduleIndex)), dev(moduleIndex := snd (Setup config (dev moduleIndex))))"

definition StreamStart :: "modules \<Rightarrow> 8 word \<Rightarrow> unit outcome \<times> modules" where
  "StreamStart dev moduleIndex =
     (fst (Start (dev moduleIndex)), dev(moduleIndex := snd (Start (dev moduleIndex))))"

definition StreamStop :: "modules \<Rightarrow> 8 word \<Rightarrow> unit outcome \<times> modules" where
  "StreamStop dev moduleIndex =
     (fst (Stop (dev moduleIndex)), dev(moduleIndex := snd (Stop (dev moduleIndex))))"

subsection \<open>What every reachable controller satisfies\<close>

text \<open>
  A controller that is idle or stopped holds no buffer; one that is configured or
  running holds buffers for declared channels only; and no queue is longer than its
  capacity, with a fill fraction between 0 and 1.
\<close>

definition held_in_order :: "controller \<Rightarrow> bool" where
  "held_in_order c \<longleftrightarrow>
     (phase c = Idle \<or> phase c = Stopped \<longrightarrow> (\<forall>k. buffers c k = None))
     \<and> (phase c = Configured \<or> phase c = Running \<longrightarrow>
          (\<exists>d. descriptor c = Some d \<and> (\<forall>k. k \<notin> set (channel_keys d) \<longrightarrow> buffers c k = None)))
     \<and> (\<forall>k b. buffers c k = Some b \<longrightarrow>
          length (queue b) \<le> capacity b \<and> 0 \<le> stat_fill (stats b) \<and> stat_fill (stats b) \<le> 1)"


text \<open>
  Two controllers are alike when they differ in the statistics of their channels at
  most: same state, descriptor, memory, parameters, time and transmitted stream, and
  for every channel the same capacity and the same queue.
\<close>

definition same_queue :: "channel_buffer option \<Rightarrow> channel_buffer option \<Rightarrow> bool" where
  "same_queue x y =
     (case (x, y) of
        (None, None) \<Rightarrow> True
      | (Some b, Some b') \<Rightarrow> capacity b = capacity b' \<and> queue b = queue b'
      | _ \<Rightarrow> False)"

definition alike :: "controller \<Rightarrow> controller \<Rightarrow> bool" where
  "alike c c' \<longleftrightarrow>
     phase c = phase c' \<and> descriptor c = descriptor c' \<and> free_memory c = free_memory c'
     \<and> internal_default c = internal_default c' \<and> tolerance c = tolerance c'
     \<and> hw_time c = hw_time c' \<and> transmitted c = transmitted c'
     \<and> (\<forall>k. same_queue (buffers c k) (buffers c' k))"

text \<open>
  A descriptor for examples: it declares the given RX and TX channels, in arrays of
  \<^verbatim>\<open>MAX_CHANNEL_COUNT\<close> entries, with the given formats and buffer size; every
  other field is as the default constructor leaves it.
\<close>

definition config_of ::
  "8 word list \<Rightarrow> 8 word list \<Rightarrow> 32 word \<Rightarrow> 32 word \<Rightarrow> 32 word \<Rightarrow> StreamConfig" where
  "config_of rxs txs fmt link sz =
     \<lparr> rxCount = of_nat (length rxs), rxChannels = rxs @ replicate (16 - length rxs) 0,
       txCount = of_nat (length txs), txChannels = txs @ replicate (16 - length txs) 0,
       format = fmt, linkFormat = link, bufferSize = sz, hintSampleRate = 0,
       alignPhase = False, statusCallback = nullptr, userData = nullptr,
       extraConfig = nullptr \<rparr>"




section \<open>Reading zeroed memory\<close>

lemma le_bytes_zero: "le_bytes (replicate n 0) = 0"
  by (induction n) simp_all

lemma take_drop_memset:
  "off + k \<le> n \<Longrightarrow> take k (drop off (memset raw v n)) = replicate k v"
  by (simp add: memset_def min_def)

lemma take_memset: "take n (memset raw v n) = replicate n v"
  by (simp add: memset_def)

lemma load_memset_zero: "off + k \<le> n \<Longrightarrow> load (memset raw 0 n) off k = 0"
  by (simp add: load_def take_drop_memset le_bytes_zero)

lemma load_u8_array_zero:
  assumes "off + k \<le> n"
  shows "load_u8_array (memset raw 0 n) off k = replicate k 0"
proof (rule nth_equalityI)
  show "length (load_u8_array (memset raw 0 n) off k) = length (replicate k (0 :: 8 word))"
    by (simp add: load_u8_array_def)
next
  fix i
  assume "i < length (load_u8_array (memset raw 0 n) off k)"
  then have i: "i < k"
    by (simp add: load_u8_array_def)
  with assms have "load (memset raw 0 n) (off + i) 1 = 0"
    by (intro load_memset_zero) simp
  with i show "load_u8_array (memset raw 0 n) off k ! i = replicate k 0 ! i"
    by (simp add: load_u8_array_def load_u8_def)
qed

lemma load_store_u8_other:
  "p < off \<Longrightarrow> load (store_u8 m p v) off k = load m off k"
  by (simp add: load_def store_u8_def)

lemma load_store_u8_same:
  "p < length m \<Longrightarrow> load (store_u8 m p v) p (Suc 0) = unat v"
  by (simp add: load_def store_u8_def upd_conv_take_nth_drop)

lemma length_memset: "length (memset raw v n) = n + (length raw - n)"
  by (simp add: memset_def)

lemma binary32_value_zero: "binary32_value 0 = Some 0"
  by (simp add: binary32_value_def)

section \<open>Allocation, rollback and the invariant\<close>

lemma fill_fraction_bounds:
  "occ \<le> cap \<Longrightarrow> 0 \<le> fill_fraction occ cap \<and> fill_fraction occ cap \<le> 1"
  by (simp add: fill_fraction_def)


lemma release_None: "buffers c k = None \<Longrightarrow> release k c = c"
  by (simp add: release_def)

lemma release_all_untouched:
  "(\<forall>k \<in> set ks. buffers c k = None) \<Longrightarrow> release_all ks c = c"
  by (induction ks) (simp_all add: release_all_def release_None)

lemma allocate_buffers_other:
  "k \<notin> set ks \<Longrightarrow> buffers (snd (allocate sz ks c)) k = buffers c k"
  by (induction ks arbitrary: c) simp_all

lemma allocate_rollback:
  "distinct ks \<Longrightarrow> (\<forall>k \<in> set ks. buffers c k = None) \<Longrightarrow>
   release_all ks (snd (allocate sz ks c)) = c"
proof (induction ks arbitrary: c)
  case Nil
  then show ?case by (simp add: release_all_def)
next
  case (Cons k ks)
  show ?case
  proof (cases "sz \<le> free_memory c")
    case False
    with Cons.prems show ?thesis
      using release_all_untouched [of "k # ks" c] by simp
  next
    case True
    define c1 where "c1 = c\<lparr> free_memory := free_memory c - sz,
      buffers := (buffers c)(k \<mapsto> new_buffer (fst k) sz) \<rparr>"
    have none: "\<forall>k' \<in> set ks. buffers c1 k' = None"
      using Cons.prems by (auto simp: c1_def)
    have "release_all ks (snd (allocate sz ks c1)) = c1"
      using Cons.IH [of c1] Cons.prems none by simp
    moreover have "release k c1 = c"
      using Cons.prems True by (simp add: release_def c1_def new_buffer_def fun_upd_idem)
    ultimately show ?thesis
      using True by (simp add: release_all_def c1_def)
  qed
qed

lemma distinct_channel_keys: "\<not> malformed d \<Longrightarrow> distinct (channel_keys d)"
  by (auto simp: malformed_def malformed_channels_def channel_keys_def distinct_map inj_on_def)

lemma buffers_release_all:
  "buffers (release_all ks c) k = (if k \<in> set ks then None else buffers c k)"
proof (induction ks)
  case Nil
  then show ?case by (simp add: release_all_def)
next
  case (Cons a ks)
  then show ?case
    by (simp add: release_all_def release_def split: option.splits)
qed

lemma phase_release_all [simp]: "phase (release_all ks c) = phase c"
  by (induction ks) (simp_all add: release_all_def release_def split: option.splits)

lemma descriptor_release_all [simp]: "descriptor (release_all ks c) = descriptor c"
  by (induction ks) (simp_all add: release_all_def release_def split: option.splits)

lemma phase_allocate [simp]: "phase (snd (allocate sz ks c)) = phase c"
  by (induction ks arbitrary: c) simp_all

lemma buffers_allocate_cases:
  "buffers (snd (allocate sz ks c)) k = Some b \<Longrightarrow>
   buffers c k = Some b \<or> b = new_buffer (fst k) sz"
proof (induction ks arbitrary: c)
  case Nil
  then show ?case by simp
next
  case (Cons a ks)
  show ?case
  proof (cases "sz \<le> free_memory c")
    case False
    with Cons.prems show ?thesis by simp
  next
    case True
    with Cons.prems Cons.IH [of "c\<lparr> free_memory := free_memory c - sz,
      buffers := (buffers c)(a \<mapsto> new_buffer (fst a) sz) \<rparr>"]
    show ?thesis by (auto split: if_splits)
  qed
qed

lemma Setup_failure_unchanged:
  assumes "\<forall>k. buffers c k = None" and "fst (Setup d c) \<noteq> Done ()"
  shows "snd (Setup d c) = c"
proof (cases "malformed d \<or> (phase c \<noteq> Idle \<and> phase c \<noteq> Stopped)")
  case True
  then show ?thesis by (auto simp: Setup_def)
next
  case False
  then have "distinct (channel_keys d)"
    by (simp add: distinct_channel_keys)
  then have rolled: "release_all (channel_keys d) (snd (allocate (buffer_size c d) (channel_keys d) c)) = c"
    using assms(1) by (intro allocate_rollback) auto
  obtain ok c' where alloc: "allocate (buffer_size c d) (channel_keys d) c = (ok, c')"
    by (cases "allocate (buffer_size c d) (channel_keys d) c")
  with False assms(2) have "\<not> ok"
    by (auto simp: Setup_def)
  with False alloc rolled show ?thesis
    by (simp add: Setup_def)
qed

lemma held_in_orderI:
  assumes "\<And>k. phase c = Idle \<or> phase c = Stopped \<Longrightarrow> buffers c k = None"
    and "phase c = Configured \<or> phase c = Running \<Longrightarrow>
      \<exists>d. descriptor c = Some d \<and> (\<forall>k. k \<notin> set (channel_keys d) \<longrightarrow> buffers c k = None)"
    and "\<And>k b. buffers c k = Some b \<Longrightarrow>
      length (queue b) \<le> capacity b \<and> 0 \<le> stat_fill (stats b) \<and> stat_fill (stats b) \<le> 1"
  shows "held_in_order c"
  unfolding held_in_order_def using assms by blast

lemma held_idle:
  "held_in_order c \<Longrightarrow> phase c = Idle \<or> phase c = Stopped \<Longrightarrow> buffers c k = None"
  unfolding held_in_order_def by blast

lemma held_declared:
  "held_in_order c \<Longrightarrow> phase c = Configured \<or> phase c = Running \<Longrightarrow>
   \<exists>d. descriptor c = Some d \<and> (\<forall>k. k \<notin> set (channel_keys d) \<longrightarrow> buffers c k = None)"
  unfolding held_in_order_def by blast

lemma held_buffer:
  "held_in_order c \<Longrightarrow> buffers c k = Some b \<Longrightarrow>
   length (queue b) \<le> capacity b \<and> 0 \<le> stat_fill (stats b) \<and> stat_fill (stats b) \<le> 1"
  unfolding held_in_order_def by blast

lemma held_initial: "held_in_order (initial mem dflt tol)"
  by (rule held_in_orderI) (simp_all add: initial_def)

lemma held_Setup:
  assumes "held_in_order c"
  shows "held_in_order (snd (Setup d c))"
proof (cases "fst (Setup d c) = Done ()")
  case False
  show ?thesis
  proof (cases "malformed d \<or> (phase c \<noteq> Idle \<and> phase c \<noteq> Stopped)")
    case True
    with assms show ?thesis by (auto simp: Setup_def)
  next
    case idle: False
    with assms have "\<forall>k. buffers c k = None"
      by (auto simp: held_idle)
    with False assms show ?thesis
      by (simp add: Setup_failure_unchanged)
  qed
next
  case True
  obtain ok c' where alloc: "allocate (buffer_size c d) (channel_keys d) c = (ok, c')"
    by (cases "allocate (buffer_size c d) (channel_keys d) c")
  from True have idle: "phase c = Idle \<or> phase c = Stopped" and wf: "\<not> malformed d"
    by (auto simp: Setup_def split: if_splits)
  with True alloc have ok: ok
    by (cases ok) (auto simp: Setup_def split: if_splits)
  from idle assms have none: "buffers c k = None" for k
    by (simp add: held_idle)
  have c': "c' = snd (allocate (buffer_size c d) (channel_keys d) c)"
    using alloc by simp
  have result: "snd (Setup d c) = c'\<lparr> phase := Configured, descriptor := Some d \<rparr>"
    using wf idle alloc ok by (auto simp: Setup_def)
  have outside: "buffers c' k = None" if "k \<notin> set (channel_keys d)" for k
    using none that by (simp add: c' allocate_buffers_other)
  have inside: "b = new_buffer (fst k) (buffer_size c d)" if "buffers c' k = Some b" for k b
    using none that buffers_allocate_cases [of "buffer_size c d" "channel_keys d" c k b]
    by (simp add: c')
  show ?thesis
    unfolding result
  proof (rule held_in_orderI)
    fix k b
    assume "buffers (c'\<lparr>phase := Configured, descriptor := Some d\<rparr>) k = Some b"
    then have "b = new_buffer (fst k) (buffer_size c d)"
      using inside by simp
    then show "length (queue b) \<le> capacity b \<and> 0 \<le> stat_fill (stats b) \<and> stat_fill (stats b) \<le> 1"
      by (simp add: new_buffer_def fresh_stats_def)
  qed (use outside in simp_all)
qed

lemma held_Start: "held_in_order c \<Longrightarrow> held_in_order (snd (Start c))"
  by (cases "phase c") (auto simp: Start_def held_in_order_def)

lemma held_Stop:
  assumes "held_in_order c"
  shows "held_in_order (snd (Stop c))"
proof (cases "phase c = Configured \<or> phase c = Running")
  case False
  with assms show ?thesis
    by (cases "phase c") (simp_all add: Stop_def)
next
  case True
  with assms obtain d where d: "descriptor c = Some d"
    and outside: "\<And>k. k \<notin> set (channel_keys d) \<Longrightarrow> buffers c k = None"
    using held_declared [of c] by blast
  from True d have result: "snd (Stop c) = (release_all (channel_keys d) c)\<lparr> phase := Stopped \<rparr>"
    by (auto simp: Stop_def)
  have "buffers (release_all (channel_keys d) c) k = None" for k
    using outside [of k] by (simp add: buffers_release_all)
  then show ?thesis
    unfolding result by (intro held_in_orderI) simp_all
qed

lemma held_update:
  assumes "held_in_order c" and "buffers c k = Some b"
    and "length (queue b') \<le> capacity b'"
    and "0 \<le> stat_fill (stats b')" and "stat_fill (stats b') \<le> 1"
  shows "held_in_order (c\<lparr> buffers := (buffers c)(k \<mapsto> b') \<rparr>)"
proof (rule held_in_orderI)
  fix k'
  assume "phase (c\<lparr>buffers := (buffers c)(k \<mapsto> b')\<rparr>) = Idle
    \<or> phase (c\<lparr>buffers := (buffers c)(k \<mapsto> b')\<rparr>) = Stopped"
  then have "buffers c k = None"
    using assms(1) by (simp add: held_idle)
  with assms(2) show "buffers (c\<lparr>buffers := (buffers c)(k \<mapsto> b')\<rparr>) k' = None"
    by simp
next
  assume "phase (c\<lparr>buffers := (buffers c)(k \<mapsto> b')\<rparr>) = Configured
    \<or> phase (c\<lparr>buffers := (buffers c)(k \<mapsto> b')\<rparr>) = Running"
  then obtain d where d: "descriptor c = Some d"
    and outside: "\<And>k. k \<notin> set (channel_keys d) \<Longrightarrow> buffers c k = None"
    using held_declared [of c] assms(1) by auto
  from outside [of k] assms(2) have "k \<in> set (channel_keys d)"
    by auto
  with d outside
  show "\<exists>d. descriptor (c\<lparr>buffers := (buffers c)(k \<mapsto> b')\<rparr>) = Some d
    \<and> (\<forall>k'. k' \<notin> set (channel_keys d) \<longrightarrow> buffers (c\<lparr>buffers := (buffers c)(k \<mapsto> b')\<rparr>) k' = None)"
    by auto
next
  fix k' b''
  assume "buffers (c\<lparr>buffers := (buffers c)(k \<mapsto> b')\<rparr>) k' = Some b''"
  then have "b'' = b' \<or> buffers c k' = Some b''"
    by (auto split: if_splits)
  with assms held_buffer [of c k' b'']
  show "length (queue b'') \<le> capacity b'' \<and> 0 \<le> stat_fill (stats b'') \<and> stat_fill (stats b'') \<le> 1"
    by auto
qed

lemma held_Receive:
  assumes "held_in_order c"
  shows "held_in_order (snd (Receive ch n meta c))"
proof (cases "buffers c (RX, ch)")
  case None
  with assms show ?thesis by (simp add: Receive_def)
next
  case (Some b)
  with assms have len: "length (queue b) \<le> capacity b"
    using held_buffer by blast
  show ?thesis
  proof (cases "queue b")
    case Nil
    with Some assms show ?thesis by (simp add: Receive_def)
  next
    case (Cons blk rest)
    with len have "length rest \<le> capacity b" "Suc (length rest) \<le> capacity b"
      by simp_all
    with Some Cons assms show ?thesis
      by (auto simp: Receive_def Let_def fill_fraction_bounds intro!: held_update)
  qed
qed

lemma held_Transmit:
  assumes "held_in_order c"
  shows "held_in_order (snd (Transmit ch xs meta c))"
proof (cases "buffers c (TX, ch)")
  case None
  with assms show ?thesis by (simp add: Transmit_def)
next
  case (Some b)
  with assms have "length (queue b) \<le> capacity b"
    and "0 \<le> stat_fill (stats b)" and "stat_fill (stats b) \<le> 1"
    using held_buffer by blast+
  with Some assms show ?thesis
    by (auto simp: Transmit_def Let_def fill_fraction_bounds intro!: held_update)
qed

lemma held_StreamStatus:
  assumes "held_in_order c"
  shows "held_in_order (snd (StreamStatus dir ch c))"
proof (cases "buffers c (dir, ch)")
  case None
  with assms show ?thesis by (simp add: StreamStatus_def)
next
  case (Some b)
  with assms have "length (queue b) \<le> capacity b"
    and "0 \<le> stat_fill (stats b)" and "stat_fill (stats b) \<le> 1"
    using held_buffer by blast+
  with Some assms show ?thesis
    by (auto simp: StreamStatus_def Let_def intro!: held_update)
qed

lemma held_rx_packet:
  assumes "held_in_order c"
  shows "held_in_order (rx_packet ch ts xs c)"
proof (cases "buffers c (RX, ch)")
  case None
  with assms show ?thesis by (simp add: rx_packet_def)
next
  case (Some b)
  with assms have "length (queue b) \<le> capacity b"
    using held_buffer by blast
  with Some assms show ?thesis
    by (auto simp: rx_packet_def Let_def fill_fraction_bounds intro!: held_update)
qed

lemma held_tx_send:
  assumes "held_in_order c"
  shows "held_in_order (tx_send ch c)"
proof (cases "buffers c (TX, ch)")
  case None
  with assms show ?thesis by (simp add: tx_send_def)
next
  case (Some b)
  with assms have len: "length (queue b) \<le> capacity b"
    and "0 \<le> stat_fill (stats b)" and "stat_fill (stats b) \<le> 1"
    using held_buffer by blast+
  then have held': "held_in_order (c\<lparr> buffers := (buffers c)((TX, ch) \<mapsto> b') \<rparr>)"
    if "length (queue b') \<le> capacity b'" "0 \<le> stat_fill (stats b')" "stat_fill (stats b') \<le> 1" for b'
    using held_update [OF assms Some] that by simp
  have sent: "held_in_order (c'\<lparr> transmitted := t \<rparr>)" if "held_in_order c'" for c' t
    using that by (simp add: held_in_order_def)
  show ?thesis
  proof (cases "queue b")
    case Nil
    with Some assms \<open>0 \<le> stat_fill (stats b)\<close> \<open>stat_fill (stats b) \<le> 1\<close> show ?thesis
      by (auto simp: tx_send_def intro!: held')
  next
    case (Cons blk rest)
    with len have "length rest \<le> capacity b"
      by simp
    with Some Cons assms show ?thesis
      by (auto simp: tx_send_def fill_fraction_bounds intro!: held' sent)
  qed
qed

lemma held_tick: "held_in_order c \<Longrightarrow> held_in_order (tick n c)"
  by (simp add: held_in_order_def tick_def)

lemma held_step: "held_in_order c \<Longrightarrow> held_in_order (step e c)"
  by (cases e)
    (simp_all add: held_Setup held_Start held_Stop held_Receive held_Transmit
      held_StreamStatus held_rx_packet held_tx_send held_tick)

lemma reachable_held: "reachable c \<Longrightarrow> held_in_order c"
  by (induction rule: reachable.induct) (simp_all add: held_initial held_step)

section \<open>The overrun counter along a run\<close>












lemma held_run: "held_in_order c \<Longrightarrow> held_in_order (run es c)"
  by (induction es arbitrary: c) (simp_all add: held_step)


section \<open>Statistics do not steer the stream\<close>

lemma alike_refl: "alike c c"
  by (simp add: alike_def same_queue_def split: option.splits)




















lemma alike_sent:
  "alike c c' \<Longrightarrow> alike (c\<lparr> transmitted := t \<rparr>) (c'\<lparr> transmitted := t \<rparr>)"
  by (simp add: alike_def)







section \<open>The statistics as the header declares them\<close>

























section \<open>Setup, late submissions, overruns and Stop\<close>

lemma Setup_failure_rolled_back:
  assumes "held_in_order c" and "fst (Setup d c) \<noteq> Done ()"
  shows "snd (Setup d c) = c"
proof (cases "malformed d \<or> (phase c \<noteq> Idle \<and> phase c \<noteq> Stopped)")
  case True
  then show ?thesis by (auto simp: Setup_def)
next
  case False
  with assms(1) have "\<forall>k. buffers c k = None"
    by (auto simp: held_idle)
  then show ?thesis
    using assms(2) by (rule Setup_failure_unchanged)
qed

lemma Stop_twice: "Stop (snd (Stop c)) = (if phase c = Idle then Stop c else (Done (), snd (Stop c)))"
  by (cases "phase c") (simp_all add: Stop_def)

lemma phase_Stop: "phase c \<noteq> Idle \<Longrightarrow> phase (snd (Stop c)) = Stopped"
  by (cases "phase c") (simp_all add: Stop_def)


lemma StreamStatus_reads:
  "fst (StreamStatus dir ch c)
   = map_option (\<lambda>st. StreamStats_of (st\<lparr> stat_timestamp := hw_time c \<rparr>))
       (snapshot c (dir, ch))"
  by (simp add: StreamStatus_def snapshot_def Let_def split: option.splits)

lemmas evaluation =
  Setup_def Start_def Stop_def Receive_def Transmit_def StreamStatus_def rx_packet_def
  tx_send_def tick_def is_late_def snapshot_def fill_fraction_def malformed_def
  malformed_channels_def declared_def channel_keys_def buffer_size_def config_of_def
  initial_def new_buffer_def fresh_stats_def release_all_def release_def
  MAX_CHANNEL_COUNT_def DataFormat_of_def word_le_nat_alt word_less_nat_alt Let_def

text \<open>
  Claim C1. Whatever the device and the module: a descriptor that is malformed (RX or TX
  channel indices out of range, duplicated or more than \<^verbatim>\<open>MAX_CHANNEL_COUNT\<close>, or a
  host or link format that is no enumerator) makes \<^verbatim>\<open>StreamSetup\<close> fail with
  \<open>InvalidConfig\<close> and changes nothing; and when \<^verbatim>\<open>StreamSetup\<close> fails for any
  reason on a module whose controller is in a reachable state, every buffer allocated
  on the way has been released and the device is as it was before the call.
\<close>

theorem StreamSetup_invalid_or_rolled_back:
  "(malformed config \<longrightarrow> StreamSetup dev config m = (Fatal InvalidConfig, dev))
   \<and> (reachable (dev m) \<longrightarrow> fst (StreamSetup dev config m) \<noteq> Done () \<longrightarrow>
        snd (StreamSetup dev config m) = dev)"
proof -
  have "StreamSetup dev config m = (Fatal InvalidConfig, dev)" if "malformed config"
    using that by (simp add: StreamSetup_def Setup_def)
  moreover have "snd (StreamSetup dev config m) = dev"
    if "reachable (dev m)" "fst (StreamSetup dev config m) \<noteq> Done ()"
  proof -
    from that have "snd (Setup config (dev m)) = dev m"
      by (intro Setup_failure_rolled_back reachable_held) (simp_all add: StreamSetup_def)
    then show ?thesis
      by (simp add: StreamSetup_def)
  qed
  ultimately show ?thesis by blast
qed

theorem StreamSetup_invalid_or_rolled_back_witness:
  "malformed (config_of [3, 3] [] 0 0 0)
   \<and> StreamSetup (\<lambda>m. initial 3 0 0) (config_of [3, 3] [] 0 0 0) 0
       = (Fatal InvalidConfig, \<lambda>m. initial 3 0 0)
   \<and> reachable (initial 3 0 0)
   \<and> fst (StreamSetup (\<lambda>m. initial 3 0 0) (config_of [0, 1] [] 0 0 2) 0) = Fatal AllocationFailed
   \<and> snd (StreamSetup (\<lambda>m. initial 3 0 0) (config_of [0, 1] [] 0 0 2) 0) = (\<lambda>m. initial 3 0 0)"
proof -
  have bad: "malformed (config_of [3, 3] [] 0 0 0)"
    by (simp add: evaluation)
  have reach: "reachable (initial 3 0 0)"
    by (rule reachable_initial)
  have failed: "fst (StreamSetup (\<lambda>m. initial 3 0 0) (config_of [0, 1] [] 0 0 2) 0)
      = Fatal AllocationFailed"
    by (simp add: StreamSetup_def evaluation)
  show ?thesis
    using bad reach failed
      StreamSetup_invalid_or_rolled_back
        [where config = "config_of [3, 3] [] 0 0 0" and dev = "\<lambda>m. initial 3 0 0" and m = 0]
      StreamSetup_invalid_or_rolled_back
        [where config = "config_of [0, 1] [] 0 0 2" and dev = "\<lambda>m. initial 3 0 0" and m = 0]
    by simp
qed






text \<open>
  Claim C6. For every device and module index, stopping twice in succession leaves the
  device as stopping once does; unless the module was idle, where \<open>Stop\<close> is not
  valid and changes nothing, that state is \<open>Stopped\<close> and the second
  \<open>Stop\<close> succeeds. Starting a module that is already running returns the soft
  warning \<open>AlreadyRunning\<close> and leaves the device unchanged.
\<close>

theorem StreamStop_idempotent_StreamStart_running:
  "snd (StreamStop (snd (StreamStop dev m)) m) = snd (StreamStop dev m)
   \<and> (phase (dev m) \<noteq> Idle \<longrightarrow>
        phase (snd (StreamStop dev m) m) = Stopped
        \<and> fst (StreamStop (snd (StreamStop dev m)) m) = Done ())
   \<and> (phase (dev m) = Running \<longrightarrow> StreamStart dev m = (Soft AlreadyRunning, dev))"
  by (simp add: StreamStop_def StreamStart_def Stop_twice phase_Stop Start_def)

theorem StreamStop_idempotent_StreamStart_running_witness:
  "phase (run [CallSetup (config_of [0] [1] 2 0 0), CallStart] (initial 10 4 0)) = Running
   \<and> StreamStart (\<lambda>m. run [CallSetup (config_of [0] [1] 2 0 0), CallStart] (initial 10 4 0)) 0
       = (Soft AlreadyRunning,
          \<lambda>m. run [CallSetup (config_of [0] [1] 2 0 0), CallStart] (initial 10 4 0))
   \<and> phase (snd (StreamStop
         (\<lambda>m. run [CallSetup (config_of [0] [1] 2 0 0), CallStart] (initial 10 4 0)) 0) 0)
       = Stopped
   \<and> fst (StreamStop (snd (StreamStop
         (\<lambda>m. run [CallSetup (config_of [0] [1] 2 0 0), CallStart] (initial 10 4 0)) 0)) 0)
       = Done ()"
proof -
  have running:
    "phase (run [CallSetup (config_of [0] [1] 2 0 0), CallStart] (initial 10 4 0)) = Running"
    by (simp add: evaluation)
  show ?thesis
    using running
      StreamStop_idempotent_StreamStart_running
        [where dev = "\<lambda>m. run [CallSetup (config_of [0] [1] 2 0 0), CallStart] (initial 10 4 0)"
           and m = 0]
    by simp
qed

section \<open>The default constructors\<close>

text \<open>
  Claim C10. A default-constructed \<^verbatim>\<open>StreamStats\<close> has every field zero, whatever the
  storage held before the constructor ran: the timestamp, the byte and packet counts, the
  three \<^verbatim>\<open>float\<close> fields (all bits clear, which is the number 0), the overrun,
  underrun, loss and late counters, and the direction flag, which is false. Every byte
  of the object is 0, so the fields read zero wherever a compiler places them. A
  snapshot that nothing has written since its construction therefore reads all-zero.
\<close>

theorem StreamStats_default_all_zero:
  "StreamStats_default raw =
     \<lparr> timestamp = 0, bytesTransferred = 0, packets = 0, FIFO_filled = 0,
       dataRate_Bps = 0, txDataRate_Bps = 0, overrun = 0, underrun = 0, loss = 0,
       late = 0, isTx = False \<rparr>
   \<and> sint (bytesTransferred (StreamStats_default raw)) = 0
   \<and> sint (packets (StreamStats_default raw)) = 0
   \<and> binary32_value (FIFO_filled (StreamStats_default raw)) = Some 0
   \<and> binary32_value (dataRate_Bps (StreamStats_default raw)) = Some 0
   \<and> binary32_value (txDataRate_Bps (StreamStats_default raw)) = Some 0
   \<and> take sizeof_StreamStats (StreamStats_ctor raw) = replicate sizeof_StreamStats 0"
  by (simp add: StreamStats_default_def StreamStats_ctor_def StreamStats_fields_def
      sizeof_StreamStats_def load_u64_def load_u32_def load_bool_def load_memset_zero
      binary32_value_zero take_memset)

text \<open>
  Claim C9. A default-constructed \<^verbatim>\<open>StreamConfig::Extras\<close> has \<^verbatim>\<open>usePoll\<close> true
  and its four other fields (\<^verbatim>\<open>rxSamplesInPacket\<close>, \<^verbatim>\<open>rxPacketsInBatch\<close>,
  \<^verbatim>\<open>txMaxPacketsInBatch\<close>, \<^verbatim>\<open>txSamplesInPacket\<close>) zero, whatever the storage held
  before: every byte of the object is 0 but the one of the flag, which is 1.
\<close>

theorem Extras_default_usePoll:
  "Extras_default raw =
     \<lparr> usePoll = True, rxSamplesInPacket = 0, rxPacketsInBatch = 0,
       txMaxPacketsInBatch = 0, txSamplesInPacket = 0 \<rparr>
   \<and> take sizeof_Extras (Extras_ctor raw) = (replicate sizeof_Extras 0)[offsetof_usePoll := 1]"
  by (simp add: Extras_default_def Extras_ctor_def Extras_fields_def sizeof_Extras_def
      offsetof_usePoll_def load_u16_def load_u32_def load_bool_def load_store_u8_other
      load_store_u8_same length_memset load_memset_zero store_u8_def [symmetric])
    (simp add: store_u8_def take_update_swap take_memset)

text \<open>
  Claim C8. A default-constructed \<^verbatim>\<open>StreamConfig\<close> has every field at its zero value,
  whatever the storage held before: both counts 0, all sixteen channel indices of either
  direction 0, \<^verbatim>\<open>format\<close> and \<^verbatim>\<open>linkFormat\<close> the first enumerator \<^verbatim>\<open>I16\<close>,
  \<^verbatim>\<open>bufferSize\<close> 0, \<^verbatim>\<open>hintSampleRate\<close> the number 0, \<^verbatim>\<open>alignPhase\<close> false, and
  the callback, the user data and the extra configuration null pointers. Every byte of
  the object is 0.
\<close>

theorem StreamConfig_default_all_zero:
  "StreamConfig_default raw =
     \<lparr> rxCount = 0, rxChannels = replicate 16 0, txCount = 0, txChannels = replicate 16 0,
       format = 0, linkFormat = 0, bufferSize = 0, hintSampleRate = 0, alignPhase = False,
       statusCallback = nullptr, userData = nullptr, extraConfig = nullptr \<rparr>
   \<and> DataFormat_of (format (StreamConfig_default raw)) = Some I16
   \<and> DataFormat_of (linkFormat (StreamConfig_default raw)) = Some I16
   \<and> binary32_value (hintSampleRate (StreamConfig_default raw)) = Some 0
   \<and> take sizeof_StreamConfig (StreamConfig_ctor raw) = replicate sizeof_StreamConfig 0"
  by (simp add: StreamConfig_default_def StreamConfig_ctor_def StreamConfig_fields_def
      sizeof_StreamConfig_def MAX_CHANNEL_COUNT_def load_u8_def load_u32_def load_u64_def
      load_bool_def load_memset_zero load_u8_array_zero nullptr_def DataFormat_of_def
      binary32_value_zero take_memset)

section \<open>The optional operations\<close>

text \<open>
  Claim C7. For every device state, buffer and length, the default bodies of
  \<^verbatim>\<open>GPIOWrite\<close>, \<^verbatim>\<open>GPIORead\<close>, \<^verbatim>\<open>GPIODirWrite\<close>, \<^verbatim>\<open>GPIODirRead\<close>,
  \<^verbatim>\<open>CustomParameterWrite\<close> and \<^verbatim>\<open>CustomParameterRead\<close> return -1 and leave the
  device and every buffer passed to them as they were.
\<close>

theorem optional_operations_unsupported:
  "sint (returned (GPIOWrite this buf n)) = - 1
   \<and> device (GPIOWrite this buf n) = this \<and> buffer (GPIOWrite this buf n) = buf
   \<and> sint (returned (GPIORead this buf n)) = - 1
   \<and> device (GPIORead this buf n) = this \<and> buffer (GPIORead this buf n) = buf
   \<and> sint (returned (GPIODirWrite this buf n)) = - 1
   \<and> device (GPIODirWrite this buf n) = this \<and> buffer (GPIODirWrite this buf n) = buf
   \<and> sint (returned (GPIODirRead this buf n)) = - 1
   \<and> device (GPIODirRead this buf n) = this \<and> buffer (GPIODirRead this buf n) = buf
   \<and> CustomParameterWrite this ids vals n units =
       \<lparr> returned_p = - 1, device_p = this, ids_p = ids, values_p = vals, units_p = units \<rparr>
   \<and> CustomParameterRead this ids vals n units =
       \<lparr> returned_p = - 1, device_p = this, ids_p = ids, values_p = vals, units_p = units \<rparr>
   \<and> sint (- 1 :: 32 word) = - 1"
  by (simp add: GPIOWrite_def GPIORead_def GPIODirWrite_def GPIODirRead_def
      CustomParameterWrite_def CustomParameterRead_def)

end
